theory Spec2Isabelle
  imports Complex_Main "HOL-Library.Multiset"
begin

section \<open>JavaScript values\<close>

text \<open>
  The handler of \<^verbatim>\<open>src/api/index.js\<close> reads nine fields of a JSON request body and
  compares, tests and stores them without checking their types. A field is modelled as
  a scalar JavaScript value: absent (\<open>undefined\<close>), \<open>null\<close>, a boolean, a finite number
  or a string. Numbers are rationals: every finite double is one, and the handler only
  compares numbers with small integer literals and tests them for being integers, which
  is exact. A string is the list of its code units, of which \<open>char\<close> offers 256.
  Array- and object-valued fields, and number literals too large for a double, are
  outside the model.
\<close>

datatype jsval = Undefined | Null | Bool bool | Num rat | Str string

text \<open>The result of the language's ToNumber conversion.\<close>

datatype jsnum = NaN | NegInfinity | Fin rat | PosInfinity

text \<open>
  What the language and its library supply. \<open>toUpperCase\<close> is
  \<^verbatim>\<open>String.prototype.toUpperCase\<close>. \<open>StringToNumber\<close> is the numeric value of a string
  that is not an array index (see \<open>ToNumber\<close> below). \<open>inherited\<close> tells which property
  names an array inherits from its prototype chain (\<^verbatim>\<open>constructor\<close>, \<^verbatim>\<open>map\<close>, ...).
\<close>

record runtime =
  toUpperCase :: "string \<Rightarrow> string"
  StringToNumber :: "string \<Rightarrow> jsnum"
  inherited :: "string \<Rightarrow> bool"

text \<open>Truthiness, as tested by \<^verbatim>\<open>if (v)\<close>, \<^verbatim>\<open>!v\<close> and \<^verbatim>\<open>v || d\<close>.\<close>

fun truthy :: "jsval \<Rightarrow> bool" where
  "truthy Undefined = False"
| "truthy Null = False"
| "truthy (Bool b) = b"
| "truthy (Num q) = (q \<noteq> 0)"
| "truthy (Str s) = (s \<noteq> [])"

subsection \<open>Array indices\<close>

text \<open>
  A property name is an array index when it is the decimal numeral, without leading
  zeros, of a number below \<open>2^32 - 1\<close>.
\<close>

definition digit :: "char \<Rightarrow> bool" where
  "digit c = (c \<in> set ''0123456789'')"

fun decimal :: "nat \<Rightarrow> string \<Rightarrow> nat" where
  "decimal acc [] = acc"
| "decimal acc (c # cs) = decimal (10 * acc + (of_char c - 48)) cs"

definition array_index :: "string \<Rightarrow> nat option" where
  "array_index s =
     (if s = [] \<or> \<not> list_all digit s \<or> (hd s = CHR ''0'' \<and> tl s \<noteq> []) then None
      else if decimal 0 s < 2 ^ 32 - 1 then Some (decimal 0 s) else None)"

subsection \<open>Conversion to a number and comparison\<close>

text \<open>
  ToNumber. A string that is an array index denotes that number; the value of any
  other string is left to \<open>StringToNumber\<close>, so that nothing is assumed about it.
\<close>

fun ToNumber :: "runtime \<Rightarrow> jsval \<Rightarrow> jsnum" where
  "ToNumber rt Undefined = NaN"
| "ToNumber rt Null = Fin 0"
| "ToNumber rt (Bool b) = Fin (if b then 1 else 0)"
| "ToNumber rt (Num q) = Fin q"
| "ToNumber rt (Str s) =
     (case array_index s of Some n \<Rightarrow> Fin (of_nat n) | None \<Rightarrow> StringToNumber rt s)"

text \<open>
  The comparison of two numbers: \<open>None\<close> is the result \<open>undefined\<close>, which every
  relational operator turns into \<open>false\<close>.
\<close>

fun IsLessThan :: "jsnum \<Rightarrow> jsnum \<Rightarrow> bool option" where
  "IsLessThan NaN y = None"
| "IsLessThan x NaN = None"
| "IsLessThan PosInfinity y = Some False"
| "IsLessThan x PosInfinity = Some True"
| "IsLessThan x NegInfinity = Some False"
| "IsLessThan NegInfinity y = Some True"
| "IsLessThan (Fin a) (Fin b) = Some (a < b)"

text \<open>
  The operators \<^verbatim>\<open>v < q\<close>, \<^verbatim>\<open>v > q\<close> and \<^verbatim>\<open>v >= q\<close> for a number literal \<open>q\<close>: with a
  number on one side both operands are converted to numbers.
\<close>

definition js_lt :: "runtime \<Rightarrow> jsval \<Rightarrow> rat \<Rightarrow> bool" where
  "js_lt rt v q = (IsLessThan (ToNumber rt v) (Fin q) = Some True)"

definition js_gt :: "runtime \<Rightarrow> jsval \<Rightarrow> rat \<Rightarrow> bool" where
  "js_gt rt v q = (IsLessThan (Fin q) (ToNumber rt v) = Some True)"

definition js_ge :: "runtime \<Rightarrow> jsval \<Rightarrow> rat \<Rightarrow> bool" where
  "js_ge rt v q = (IsLessThan (ToNumber rt v) (Fin q) = Some False)"

text \<open>
  \<^verbatim>\<open>v.length\<close> for a truthy scalar \<open>v\<close>: the length of a string, \<open>undefined\<close> for a number
  or a boolean.
\<close>

fun length_of :: "jsval \<Rightarrow> jsval" where
  "length_of (Str s) = Num (of_nat (length s))"
| "length_of v = Undefined"

section \<open>Arrays\<close>

text \<open>
  An array read back from the store is a list whose entries may be \<open>null\<close> (\<open>None\<close>).
  \<^verbatim>\<open>a[k]\<close> converts \<open>k\<close> to a property name. The name is an element index, or
  \<^verbatim>\<open>length\<close>, or the name of an inherited member, or some other name. The names
  \<^verbatim>\<open>undefined\<close>, \<^verbatim>\<open>null\<close>, \<^verbatim>\<open>true\<close>, \<^verbatim>\<open>false\<close> and the numerals of numbers that are not
  array indices are other names.
\<close>

datatype array_property = Element nat | LengthProp | Inherited | Other

definition property_of_name :: "runtime \<Rightarrow> string \<Rightarrow> array_property" where
  "property_of_name rt s =
     (case array_index s of
        Some n \<Rightarrow> Element n
      | None \<Rightarrow> if s = ''length'' then LengthProp
                else if inherited rt s then Inherited else Other)"

fun property_of :: "runtime \<Rightarrow> jsval \<Rightarrow> array_property" where
  "property_of rt (Str s) = property_of_name rt s"
| "property_of rt (Num q) =
     (if 0 \<le> q \<and> of_int \<lfloor>q\<rfloor> = q \<and> q < 2 ^ 32 - 1 then Element (nat \<lfloor>q\<rfloor>) else Other)"
| "property_of rt v = Other"

text \<open>
  The entry \<open>n\<close> of an array. Beyond the end there is none: it reads as \<open>undefined\<close>,
  which is empty like \<open>null\<close>.
\<close>

definition element :: "'a option list \<Rightarrow> nat \<Rightarrow> 'a option" where
  "element a n = (if n < length a then a ! n else None)"

text \<open>
  Whether \<^verbatim>\<open>a[k]\<close> is truthy, for an array of strings and nulls: a name the array does
  not have reads as \<open>undefined\<close>, \<^verbatim>\<open>length\<close> reads as the number of entries, and every
  inherited member is a function or an object.
\<close>

definition truthy_at :: "runtime \<Rightarrow> string option list \<Rightarrow> jsval \<Rightarrow> bool" where
  "truthy_at rt a k =
     (case property_of rt k of
        Element n \<Rightarrow> (case element a n of None \<Rightarrow> False | Some s \<Rightarrow> s \<noteq> [])
      | LengthProp \<Rightarrow> a \<noteq> []
      | Inherited \<Rightarrow> True
      | Other \<Rightarrow> False)"

text \<open>
  Writing an element: beyond the end the array grows, and the holes in between are
  written to the store as \<open>null\<close>.
\<close>

definition store_element :: "'a option list \<Rightarrow> nat \<Rightarrow> 'a option \<Rightarrow> 'a option list" where
  "store_element a n v =
     (if n < length a then a[n := v] else a @ replicate (n - length a) None @ [v])"

text \<open>
  Writing \<^verbatim>\<open>length\<close>: the value, converted to a number, must be an integer from \<open>0\<close> to
  \<open>2^32 - 1\<close>, else a RangeError is thrown (\<open>None\<close>); the array is cut or grows to that
  length.
\<close>

definition set_length :: "'a option list \<Rightarrow> jsnum \<Rightarrow> 'a option list option" where
  "set_length a x =
     (case x of
        Fin q \<Rightarrow>
          if 0 \<le> q \<and> of_int \<lfloor>q\<rfloor> = q \<and> q < 2 ^ 32
          then Some (take (nat \<lfloor>q\<rfloor>) a @ replicate (nat \<lfloor>q\<rfloor> - length a) None)
          else None
      | _ \<Rightarrow> None)"

text \<open>
  The assignment \<^verbatim>\<open>a[k] = v\<close>, where \<open>x\<close> is \<open>v\<close> converted to a number. Writing any
  other name, or an inherited one, adds a property that is not an element: it is not
  written to the store, since the array is stored by its elements.
\<close>

definition assign_at :: "runtime \<Rightarrow> 'a option list \<Rightarrow> jsval \<Rightarrow> 'a option \<Rightarrow> jsnum \<Rightarrow> 'a option list option" where
  "assign_at rt a k v x =
     (case property_of rt k of
        Element n \<Rightarrow> Some (store_element a n v)
      | LengthProp \<Rightarrow> set_length a x
      | _ \<Rightarrow> Some a)"

section \<open>The game document and the store\<close>

record score =
  team1 :: jsval
  team2 :: jsval

record game_state =
  squares :: "string option list"
  rowNumbers :: "nat list"
  colNumbers :: "nat list"
  numbersAssigned :: bool
  team1Name :: jsval
  team2Name :: jsval
  pricePerSquare :: jsval
  quarterScores :: "score option list"

definition defaultState :: game_state where
  "defaultState =
     \<lparr>squares = replicate 100 None,
      rowNumbers = [],
      colNumbers = [],
      numbersAssigned = False,
      team1Name = Str ''Patriots'',
      team2Name = Str ''Seahawks'',
      pricePerSquare = Num 2,
      quarterScores = replicate 4 (Some \<lparr>team1 = Str '''', team2 = Str ''''\<rparr>)\<rparr>"

text \<open>
  The store holds one key. It is modelled by the documents written under that key, the
  latest first: reading returns the latest, and nothing when the key was never written.
  A store that fails is not modelled. \<open>getGameState\<close> (lines 24 to 51) writes the default
  document when it finds none.
\<close>

type_synonym redis = "game_state list"

definition redis_get :: "redis \<Rightarrow> game_state option" where
  "redis_get store = (case store of [] \<Rightarrow> None | d # _ \<Rightarrow> Some d)"

definition redis_set :: "game_state \<Rightarrow> redis \<Rightarrow> redis" where
  "redis_set d store = d # store"

definition getGameState :: "redis \<Rightarrow> game_state \<times> redis" where
  "getGameState store =
     (case redis_get store of
        None \<Rightarrow> (defaultState, redis_set defaultState store)
      | Some state \<Rightarrow> (state, store))"

definition saveGameState :: "game_state \<Rightarrow> redis \<Rightarrow> game_state \<times> redis" where
  "saveGameState state store = (state, redis_set state store)"

section \<open>The shuffle\<close>

text \<open>
  \<^verbatim>\<open>for (let i = arr.length - 1; i > 0; i--)\<close>: the loop counts \<open>i\<close> down to 1, draws
  \<^verbatim>\<open>j = Math.floor(Math.random() * (i + 1))\<close> and swaps the entries \<open>i\<close> and \<open>j\<close>.
  \<open>rnd k\<close> is the value of the \<open>k\<close>-th call of \<^verbatim>\<open>Math.random\<close> while one request is
  handled, counting from 0, and \<open>k\<close> is the number of calls made before. The product is
  taken over the rationals; \<^verbatim>\<open>Math.random\<close> returns a number \<open>r\<close> with \<open>0 \<le> r < 1\<close>, for
  which \<open>j\<close> is from \<open>0\<close> to \<open>i\<close>.
\<close>

fun shuffle_loop :: "(nat \<Rightarrow> rat) \<Rightarrow> nat \<Rightarrow> nat \<Rightarrow> 'a list \<Rightarrow> 'a list" where
  "shuffle_loop rnd k 0 arr = arr"
| "shuffle_loop rnd k (Suc i) arr =
     (let j = nat \<lfloor>rnd k * (of_nat (Suc i) + 1)\<rfloor>
      in shuffle_loop rnd (k + 1) i (arr[Suc i := arr ! j, j := arr ! Suc i]))"

definition shuffle :: "(nat \<Rightarrow> rat) \<Rightarrow> nat \<Rightarrow> 'a list \<Rightarrow> 'a list" where
  "shuffle rnd k array = shuffle_loop rnd k (length array - 1) array"

section \<open>Requests and responses\<close>

text \<open>
  The fields the handler takes from the body of a POST request; a field the body does
  not have is \<open>Undefined\<close>. The two team names of the body are called \<open>req_team1Name\<close> and
  \<open>req_team2Name\<close> here, to tell them from the fields of the document. A request without
  a body has \<open>body = None\<close>; \<open>req_method\<close> is \<^verbatim>\<open>req.method\<close>.
\<close>

record post_body =
  action :: jsval
  index :: jsval
  initials :: jsval
  req_team1Name :: jsval
  req_team2Name :: jsval
  quarter :: jsval
  team1Score :: jsval
  team2Score :: jsval
  price :: jsval

record request =
  req_method :: string
  body :: "post_body option"

text \<open>
  A response is a status and what \<^verbatim>\<open>res.json\<close> sends: the document, an object with an
  \<^verbatim>\<open>error\<close> text, or the object of the \<^verbatim>\<open>catch\<close> branch, whose \<^verbatim>\<open>message\<close> is the text of
  the exception.
\<close>

datatype payload = Document game_state | Error string | ServerError | NoBody

type_synonym response = "nat \<times> payload"

text \<open>\<^verbatim>\<open>return res.status(200).json(await saveGameState(state))\<close>\<close>

definition respond_saved :: "game_state \<Rightarrow> redis \<Rightarrow> response \<times> redis" where
  "respond_saved state store =
     (case saveGameState state store of (saved, store') \<Rightarrow> ((200, Document saved), store'))"

text \<open>\<^verbatim>\<open>return res.status(400).json({ error: msg })\<close>\<close>

definition client_error :: "string \<Rightarrow> redis \<Rightarrow> response \<times> redis" where
  "client_error msg store = ((400, Error msg), store)"

text \<open>An exception thrown inside \<^verbatim>\<open>try\<close>: the \<^verbatim>\<open>catch\<close> branch answers 500.\<close>

definition server_error :: "redis \<Rightarrow> response \<times> redis" where
  "server_error store = ((500, ServerError), store)"

section \<open>The actions\<close>

text \<open>
  Each action takes the document that \<open>getGameState\<close> returned and the store as
  \<open>getGameState\<close> left it.
\<close>

text \<open>
  \<^verbatim>\<open>case 'claim'\<close> (lines 93 to 104). \<^verbatim>\<open>initials.toUpperCase()\<close> throws a TypeError when \<open>initials\<close> is not a
  string; a number or \<open>true\<close> gets that far, since its \<^verbatim>\<open>length\<close> is \<open>undefined\<close>.
\<close>

definition claim :: "runtime \<Rightarrow> game_state \<Rightarrow> redis \<Rightarrow> post_body \<Rightarrow> response \<times> redis" where
  "claim rt gameState store b =
     (if js_lt rt (index b) 0 \<or> js_gt rt (index b) 99
      then client_error ''Invalid square index'' store
      else if \<not> truthy (initials b) \<or> js_lt rt (length_of (initials b)) 2
                \<or> js_gt rt (length_of (initials b)) 4
      then client_error ''Initials must be 2-4 characters'' store
      else if truthy_at rt (squares gameState) (index b)
      then client_error ''Square already claimed'' store
      else (case initials b of
              Str s \<Rightarrow>
                (case assign_at rt (squares gameState) (index b) (Some (toUpperCase rt s))
                        (ToNumber rt (Str (toUpperCase rt s))) of
                   None \<Rightarrow> server_error store
                 | Some a \<Rightarrow> respond_saved (gameState\<lparr>squares := a\<rparr>) store)
            | _ \<Rightarrow> server_error store))"

text \<open>
  \<^verbatim>\<open>case 'assign-numbers'\<close> (lines 106 to 121). The first shuffle makes the draws 0 to 8, the second the
  draws 9 to 17, and the draw 18 decides whether the team names are swapped.
\<close>

definition assign_numbers :: "(nat \<Rightarrow> rat) \<Rightarrow> game_state \<Rightarrow> redis \<Rightarrow> response \<times> redis" where
  "assign_numbers rnd gameState store =
     (let claimed = length (filter (\<lambda>s. s \<noteq> None) (squares gameState))
      in if claimed < 100 then client_error ''All squares must be claimed first'' store
         else
           let s1 = gameState\<lparr>rowNumbers := shuffle rnd 0 [0, 1, 2, 3, 4, 5, 6, 7, 8, 9]\<rparr>;
               s2 = s1\<lparr>colNumbers := shuffle rnd 9 [0, 1, 2, 3, 4, 5, 6, 7, 8, 9]\<rparr>;
               s3 = s2\<lparr>numbersAssigned := True\<rparr>;
               s4 = (if rnd 18 < 1 / 2
                     then s3\<lparr>team1Name := team2Name s3, team2Name := team1Name s3\<rparr>
                     else s3)
           in respond_saved s4 store)"

text \<open>\<^verbatim>\<open>case 'update-teams'\<close> (lines 123 to 126): a falsy name is skipped.\<close>

definition update_teams :: "game_state \<Rightarrow> redis \<Rightarrow> post_body \<Rightarrow> response \<times> redis" where
  "update_teams gameState store b =
     (let s1 = (if truthy (req_team1Name b) then gameState\<lparr>team1Name := req_team1Name b\<rparr>
                else gameState);
          s2 = (if truthy (req_team2Name b) then s1\<lparr>team2Name := req_team2Name b\<rparr> else s1)
      in respond_saved s2 store)"

text \<open>
  \<^verbatim>\<open>case 'update-price'\<close> (lines 128 to 132): a price that is undefined or not at least
  0 is skipped, and the document is saved and sent in either case.
\<close>

definition update_price :: "runtime \<Rightarrow> game_state \<Rightarrow> redis \<Rightarrow> post_body \<Rightarrow> response \<times> redis" where
  "update_price rt gameState store b =
     (let s1 = (if price b \<noteq> Undefined \<and> js_ge rt (price b) 0
                then gameState\<lparr>pricePerSquare := price b\<rparr> else gameState)
      in respond_saved s1 store)"

text \<open>
  \<^verbatim>\<open>case 'set-score'\<close> (lines 134 to 142). The value assigned is an object, which converts to the number
  NaN.
\<close>

definition set_score :: "runtime \<Rightarrow> game_state \<Rightarrow> redis \<Rightarrow> post_body \<Rightarrow> response \<times> redis" where
  "set_score rt gameState store b =
     (if js_lt rt (quarter b) 0 \<or> js_gt rt (quarter b) 3
      then client_error ''Invalid quarter'' store
      else (case assign_at rt (quarterScores gameState) (quarter b)
                   (Some \<lparr>team1 = team1Score b, team2 = team2Score b\<rparr>) NaN of
              None \<Rightarrow> server_error store
            | Some a \<Rightarrow> respond_saved (gameState\<lparr>quarterScores := a\<rparr>) store))"

text \<open>
  \<^verbatim>\<open>case 'erase'\<close> (lines 144 to 149). The value assigned is \<open>null\<close>, which converts to
  the number 0.
\<close>

definition erase :: "runtime \<Rightarrow> game_state \<Rightarrow> redis \<Rightarrow> post_body \<Rightarrow> response \<times> redis" where
  "erase rt gameState store b =
     (if js_lt rt (index b) 0 \<or> js_gt rt (index b) 99
      then client_error ''Invalid square index'' store
      else (case assign_at rt (squares gameState) (index b) None (Fin 0) of
              None \<Rightarrow> server_error store
            | Some a \<Rightarrow> respond_saved (gameState\<lparr>squares := a\<rparr>) store))"

text \<open>\<^verbatim>\<open>case 'clear-board'\<close> (lines 151 to 153)\<close>

definition clear_board :: "game_state \<Rightarrow> redis \<Rightarrow> response \<times> redis" where
  "clear_board gameState store = respond_saved (gameState\<lparr>squares := replicate 100 None\<rparr>) store"

text \<open>
  \<^verbatim>\<open>case 'reset'\<close> (lines 155 to 171); \<^verbatim>\<open>gameState.pricePerSquare || 2\<close> is the price when
  it is truthy and 2 otherwise.
\<close>

definition reset :: "game_state \<Rightarrow> redis \<Rightarrow> response \<times> redis" where
  "reset gameState store =
     (let resetState =
        \<lparr>squares = replicate 100 None,
         rowNumbers = [],
         colNumbers = [],
         numbersAssigned = False,
         team1Name = team1Name gameState,
         team2Name = team2Name gameState,
         pricePerSquare = (if truthy (pricePerSquare gameState) then pricePerSquare gameState
                           else Num 2),
         quarterScores = replicate 4 (Some \<lparr>team1 = Str '''', team2 = Str ''''\<rparr>)\<rparr>
      in respond_saved resetState store)"

section \<open>The handler\<close>

text \<open>\<^verbatim>\<open>switch (action)\<close> compares with \<^verbatim>\<open>===\<close>: only the string itself matches.\<close>

definition dispatch ::
  "runtime \<Rightarrow> (nat \<Rightarrow> rat) \<Rightarrow> game_state \<Rightarrow> redis \<Rightarrow> post_body \<Rightarrow> response \<times> redis" where
  "dispatch rt rnd gameState store b =
     (if action b = Str ''claim'' then claim rt gameState store b
      else if action b = Str ''assign-numbers'' then assign_numbers rnd gameState store
      else if action b = Str ''update-teams'' then update_teams gameState store b
      else if action b = Str ''update-price'' then update_price rt gameState store b
      else if action b = Str ''set-score'' then set_score rt gameState store b
      else if action b = Str ''erase'' then erase rt gameState store b
      else if action b = Str ''clear-board'' then clear_board gameState store
      else if action b = Str ''reset'' then reset gameState store
      else client_error ''Invalid action'' store)"

text \<open>
  The handler maps the store and a request to the response and the store afterwards.
  Taking the fields from a missing body throws a TypeError, after \<open>getGameState\<close> has run.
  The response headers are the same for every request and are left out.
\<close>

definition handler :: "runtime \<Rightarrow> (nat \<Rightarrow> rat) \<Rightarrow> redis \<Rightarrow> request \<Rightarrow> response \<times> redis" where
  "handler rt rnd store req =
     (if req_method req = ''OPTIONS'' then ((200, NoBody), store)
      else if req_method req = ''GET''
      then (case getGameState store of (gameState, store1) \<Rightarrow> ((200, Document gameState), store1))
      else if req_method req = ''POST''
      then (case getGameState store of
              (gameState, store1) \<Rightarrow>
                (case body req of
                   None \<Rightarrow> server_error store1
                 | Some b \<Rightarrow> dispatch rt rnd gameState store1 b))
      else ((405, Error ''Method not allowed''), store))"

text \<open>
  A sequence of requests, each with the draws of \<^verbatim>\<open>Math.random\<close> made while it is
  handled: the store after the last one.
\<close>

fun run :: "runtime \<Rightarrow> redis \<Rightarrow> ((nat \<Rightarrow> rat) \<times> request) list \<Rightarrow> redis" where
  "run rt store [] = store"
| "run rt store ((rnd, req) # rest) = run rt (snd (handler rt rnd store req)) rest"

section \<open>Vocabulary of the properties\<close>

text \<open>A POST request with the body \<open>b\<close>.\<close>

definition post :: "post_body \<Rightarrow> request" where
  "post b = \<lparr>req_method = ''POST'', body = Some b\<rparr>"

text \<open>Whether a request is a POST whose action is the string \<open>a\<close>.\<close>

definition posts :: "string \<Rightarrow> request \<Rightarrow> bool" where
  "posts a req =
     (req_method req = ''POST'' \<and> (case body req of None \<Rightarrow> False | Some b \<Rightarrow> action b = Str a))"

text \<open>
  \<open>numbersAssigned\<close> of the document in the store; when the store has none, the next
  read creates the default document, where it is false.
\<close>

definition assigned :: "redis \<Rightarrow> bool" where
  "assigned store = (case redis_get store of None \<Rightarrow> False | Some d \<Rightarrow> numbersAssigned d)"

subsection \<open>Sample data\<close>

text \<open>
  A runtime for the examples: it puts the letters \<open>a\<close> to \<open>z\<close> in upper case, reads the
  empty string as 0 and every other string that is not an array index as NaN, and
  knows four inherited members of an array.
\<close>

definition upper :: "char \<Rightarrow> char" where
  "upper c =
     (case map_of (zip ''abcdefghijklmnopqrstuvwxyz'' ''ABCDEFGHIJKLMNOPQRSTUVWXYZ'') c of
        None \<Rightarrow> c
      | Some d \<Rightarrow> d)"

definition example_runtime :: runtime where
  "example_runtime =
     \<lparr>toUpperCase = map upper,
      StringToNumber = (\<lambda>s. if s = [] then Fin 0 else NaN),
      inherited = (\<lambda>s. s \<in> set [''constructor'', ''toString'', ''map'', ''__proto__''])\<rparr>"

text \<open>A body with no field.\<close>

definition empty_body :: post_body where
  "empty_body =
     \<lparr>action = Undefined, index = Undefined, initials = Undefined,
      req_team1Name = Undefined, req_team2Name = Undefined, quarter = Undefined,
      team1Score = Undefined, team2Score = Undefined, price = Undefined\<rparr>"

text \<open>The default document with every square claimed.\<close>

definition full_board :: game_state where
  "full_board = defaultState\<lparr>squares := replicate 100 (Some ''AB'')\<rparr>"

section \<open>Basic facts\<close>

lemma handler_post:
  "handler rt rnd (st # store) (post b) = dispatch rt rnd st (st # store) b"
  by (simp add: handler_def post_def getGameState_def redis_get_def)

lemma saved: "respond_saved d store = ((200, Document d), d # store)"
  by (simp add: respond_saved_def saveGameState_def redis_set_def)

lemma element_store_same: "element (store_element a n v) n = v"
  by (simp add: element_def store_element_def nth_append)

lemma element_store_other: "j \<noteq> n \<Longrightarrow> element (store_element a n v) j = element a j"
  by (auto simp add: element_def store_element_def nth_append nth_Cons')

lemma property_of_nat: "i \<le> 99 \<Longrightarrow> property_of rt (Num (of_nat i)) = Element i"
proof -
  assume "i \<le> 99"
  then have "(of_nat i :: rat) \<le> of_nat 99" by (simp only: of_nat_le_iff)
  then have "(of_nat i :: rat) < 2 ^ 32 - 1" by simp
  then show ?thesis by simp
qed

lemma lt_Num: "js_lt rt (Num q) c = (q < c)"
  by (simp add: js_lt_def)

lemma gt_Num: "js_gt rt (Num q) c = (c < q)"
  by (simp add: js_gt_def)

lemma ge_Num: "js_ge rt (Num q) c = (c \<le> q)"
  by (auto simp add: js_ge_def)

lemma lt_not_ge: "js_lt rt v c \<Longrightarrow> \<not> js_ge rt v c"
  by (simp add: js_lt_def js_ge_def)

lemma undefined_in_range: "\<not> js_lt rt Undefined c \<and> \<not> js_gt rt Undefined c"
  by (simp add: js_lt_def js_gt_def)

lemma handler_empty_store:
  "handler rt rnd [] (post b) = handler rt rnd [defaultState] (post b)"
  by (simp add: handler_def post_def getGameState_def redis_get_def redis_set_def)

lemma claim_checks:
  assumes "2 \<le> length s" "length s \<le> 4"
  shows "\<not> (\<not> truthy (Str s) \<or> js_lt rt (length_of (Str s)) 2 \<or> js_gt rt (length_of (Str s)) 4)"
proof -
  from assms have "s \<noteq> []" by auto
  moreover from assms have "\<not> (of_nat (length s) :: rat) < 2"
    by (metis of_nat_less_iff of_nat_numeral not_less)
  moreover from assms have "\<not> (4 :: rat) < of_nat (length s)"
    by (metis of_nat_less_iff of_nat_numeral not_less)
  ultimately show ?thesis by (simp add: lt_Num gt_Num)
qed

section \<open>The properties\<close>

text \<open>
  In every theorem \<open>st\<close> is the document in the store when the request arrives and
  \<open>store\<close> is what was written before it. A response \<open>(200, Document st')\<close> with the
  store \<open>st' # st # store\<close> says that \<open>st'\<close> was sent and written; a store left as
  \<open>st # store\<close> says that nothing was written. When the store is empty the handler
  first writes the default document and then acts as on a store that holds it
  (\<open>handler_empty_store\<close>).
\<close>

subsection \<open>C1: claim\<close>

lemma index_checks: "i \<le> 99 \<Longrightarrow> \<not> (js_lt rt (Num (of_nat i)) 0 \<or> js_gt rt (Num (of_nat i)) 99)"
proof -
  assume "i \<le> 99"
  then have "\<not> (99 :: rat) < of_nat i"
    by (metis of_nat_less_iff of_nat_numeral not_less)
  then show ?thesis by (simp add: lt_Num gt_Num)
qed

lemma initials_rejected_or_passed:
  "claim rt st store b = client_error ''Invalid square index'' store
   \<or> claim rt st store b = client_error ''Initials must be 2-4 characters'' store
   \<or> truthy_at rt (squares st) (index b) \<and> claim rt st store b = client_error ''Square already claimed'' store
   \<or> \<not> truthy_at rt (squares st) (index b)"
  by (simp add: claim_def)

text \<open>
  C1. For every game state and every index \<open>i\<close> from 0 to 99: when the initials are a
  string of length 2 to 4 and \<open>squares[i]\<close> is empty, the claim action sets \<open>squares[i]\<close>
  to the initials in upper case, writes the document and leaves every other square as
  it was; when \<open>squares[i]\<close> holds a label, claim fails with a validation error, whatever
  the initials, and nothing is written.
\<close>

theorem claim_square:
  assumes "i \<le> 99"
  shows
    "(2 \<le> length s \<and> length s \<le> 4 \<and> element (squares st) i = None \<longrightarrow>
       (\<exists>st'. handler rt rnd (st # store)
                 (post (b\<lparr>action := Str ''claim'', index := Num (of_nat i), initials := Str s\<rparr>))
               = ((200, Document st'), st' # st # store)
          \<and> element (squares st') i = Some (toUpperCase rt s)
          \<and> (\<forall>j. j \<noteq> i \<longrightarrow> element (squares st') j = element (squares st) j)))
     \<and> ((\<exists>t. element (squares st) i = Some t \<and> t \<noteq> []) \<longrightarrow>
       (\<exists>msg. handler rt rnd (st # store)
                 (post (b\<lparr>action := Str ''claim'', index := Num (of_nat i)\<rparr>))
               = ((400, Error msg), st # store)))"
proof (intro conjI impI)
  note idx = index_checks [OF assms, of rt] and key = property_of_nat [OF assms, of rt]
  {
    assume a: "2 \<le> length s \<and> length s \<le> 4 \<and> element (squares st) i = None"
    then have chk: "\<not> (\<not> truthy (Str s) \<or> js_lt rt (length_of (Str s)) 2 \<or> js_gt rt (length_of (Str s)) 4)"
      using claim_checks by blast
    from a key have free: "\<not> truthy_at rt (squares st) (Num (of_nat i))"
      by (simp add: truthy_at_def)
    have "handler rt rnd (st # store)
            (post (b\<lparr>action := Str ''claim'', index := Num (of_nat i), initials := Str s\<rparr>))
          = ((200, Document (st\<lparr>squares := store_element (squares st) i (Some (toUpperCase rt s))\<rparr>)),
             st\<lparr>squares := store_element (squares st) i (Some (toUpperCase rt s))\<rparr> # st # store)"
      using idx chk free key
      by (simp add: handler_post dispatch_def claim_def assign_at_def saved del: truthy.simps length_of.simps property_of.simps)
    then show "\<exists>st'. handler rt rnd (st # store)
                 (post (b\<lparr>action := Str ''claim'', index := Num (of_nat i), initials := Str s\<rparr>))
               = ((200, Document st'), st' # st # store)
          \<and> element (squares st') i = Some (toUpperCase rt s)
          \<and> (\<forall>j. j \<noteq> i \<longrightarrow> element (squares st') j = element (squares st) j)"
      by (simp add: element_store_same element_store_other)
  }
  {
    assume "\<exists>t. element (squares st) i = Some t \<and> t \<noteq> []"
    with key have taken: "truthy_at rt (squares st) (Num (of_nat i))"
      by (auto simp add: truthy_at_def)
    let ?b = "b\<lparr>action := Str ''claim'', index := Num (of_nat i)\<rparr>"
    from taken have "truthy_at rt (squares st) (index ?b)" by simp
    with initials_rejected_or_passed [of rt st "st # store" ?b]
    have "\<exists>msg. claim rt st (st # store) ?b = ((400, Error msg), st # store)"
      by (auto simp add: client_error_def)
    then show "\<exists>msg. handler rt rnd (st # store) (post ?b) = ((400, Error msg), st # store)"
      by (simp add: handler_post dispatch_def)
  }
qed

theorem claim_square_witness:
  "(\<exists>st'. handler example_runtime (\<lambda>k. 0) [defaultState]
             (post (empty_body\<lparr>action := Str ''claim'', index := Num (of_nat 5), initials := Str ''ab''\<rparr>))
           = ((200, Document st'), [st', defaultState])
      \<and> element (squares st') 5 = Some ''AB''
      \<and> (\<forall>j. j \<noteq> 5 \<longrightarrow> element (squares st') j = element (squares defaultState) j))
   \<and> (\<exists>msg. handler example_runtime (\<lambda>k. 0) [full_board]
              (post (empty_body\<lparr>action := Str ''claim'', index := Num (of_nat 5)\<rparr>))
            = ((400, Error msg), [full_board]))"
proof -
  have five: "(5::nat) \<le> 99" by simp
  have free: "element (squares defaultState) 5 = None"
    by (simp add: element_def defaultState_def)
  have taken: "\<exists>t. element (squares full_board) 5 = Some t \<and> t \<noteq> []"
    by (simp add: element_def full_board_def)
  have up: "toUpperCase example_runtime ''ab'' = ''AB''"
    by (simp add: example_runtime_def upper_def)
  from claim_square [OF five, of "''ab''" defaultState example_runtime "\<lambda>k. 0" "[]" empty_body] free up
  have "\<exists>st'. handler example_runtime (\<lambda>k. 0) [defaultState]
             (post (empty_body\<lparr>action := Str ''claim'', index := Num (of_nat 5), initials := Str ''ab''\<rparr>))
           = ((200, Document st'), [st', defaultState])
      \<and> element (squares st') 5 = Some ''AB''
      \<and> (\<forall>j. j \<noteq> 5 \<longrightarrow> element (squares st') j = element (squares defaultState) j)"
    by simp
  moreover from claim_square [OF five, of _ full_board example_runtime "\<lambda>k. 0" "[]" empty_body] taken
  have "\<exists>msg. handler example_runtime (\<lambda>k. 0) [full_board]
              (post (empty_body\<lparr>action := Str ''claim'', index := Num (of_nat 5)\<rparr>))
            = ((400, Error msg), [full_board])"
    by blast
  ultimately show ?thesis by blast
qed

subsection \<open>C2: assign-numbers\<close>

text \<open>
  The loop with every draw equal to \<open>1/2\<close>: \<open>i = 9\<close> swaps with \<open>j = 5\<close>, \<open>i = 8\<close> and \<open>i = 7\<close>
  with \<open>j = 4\<close>, \<open>i = 6\<close> and \<open>i = 5\<close> with \<open>j = 3\<close>, \<open>i = 4\<close> and \<open>i = 3\<close> with \<open>j = 2\<close>,
  \<open>i = 2\<close> with \<open>j = 1\<close>, and \<open>i = 1\<close> with itself.
\<close>

lemma shuffle_example:
  "shuffle (\<lambda>k. 1 / 2) 0 [0, 1, 2, 3, 4, 5, 6, 7, 8, 9 :: nat] = [0, 9, 1, 7, 2, 6, 3, 8, 4, 5]"
  by code_simp

lemma draw_in_range:
  fixes r :: rat
  assumes "0 \<le> r" "r < 1"
  shows "nat \<lfloor>r * (of_nat i + 1)\<rfloor> \<le> i"
proof -
  have pos: "(0 :: rat) < of_nat i + 1"
    by (simp add: add_nonneg_pos)
  have "r * (of_nat i + 1) < 1 * (of_nat i + 1)"
    using assms(2) pos by (rule mult_strict_right_mono)
  then have "r * (of_nat i + 1) < of_int (int i + 1)" by simp
  then have "\<lfloor>r * (of_nat i + 1)\<rfloor> < int i + 1" by (simp only: floor_less_iff)
  then show ?thesis by linarith
qed

lemma mset_shuffle_loop:
  assumes "\<forall>k. 0 \<le> rnd k \<and> rnd k < 1"
  shows "i < length arr \<Longrightarrow> mset (shuffle_loop rnd k i arr) = mset arr"
proof (induction i arbitrary: k arr)
  case 0
  then show ?case by simp
next
  case (Suc i)
  let ?j = "nat \<lfloor>rnd k * (of_nat (Suc i) + 1)\<rfloor>"
  from assms have "0 \<le> rnd k" and "rnd k < 1" by simp_all
  then have "?j \<le> Suc i" by (rule draw_in_range)
  with Suc.prems have j: "?j < length arr" by simp
  let ?arr = "arr[Suc i := arr ! ?j, ?j := arr ! Suc i]"
  have "mset ?arr = mset arr" using j Suc.prems by (rule mset_swap)
  moreover have "i < length ?arr" using Suc.prems by simp
  ultimately have "mset (shuffle_loop rnd (k + 1) i ?arr) = mset arr"
    using Suc.IH [of ?arr "k + 1"] by simp
  then show ?case by (simp only: shuffle_loop.simps Let_def)
qed

lemma digits: "[0 ..< 10] = [0, 1, 2, 3, 4, 5, 6, 7, 8, 9 :: nat]"
  by code_simp

lemma shuffle_digits:
  assumes "\<forall>k. 0 \<le> rnd k \<and> rnd k < 1"
  shows "mset (shuffle rnd k [0, 1, 2, 3, 4, 5, 6, 7, 8, 9 :: nat]) = mset [0 ..< 10]"
proof -
  have "(9 :: nat) < length [0, 1, 2, 3, 4, 5, 6, 7, 8, 9 :: nat]" by simp
  then have "mset (shuffle_loop rnd k 9 [0, 1, 2, 3, 4, 5, 6, 7, 8, 9 :: nat])
             = mset [0, 1, 2, 3, 4, 5, 6, 7, 8, 9 :: nat]"
    by (rule mset_shuffle_loop [OF assms])
  moreover have "length [0, 1, 2, 3, 4, 5, 6, 7, 8, 9 :: nat] - 1 = 9" by simp
  ultimately show ?thesis by (simp only: shuffle_def digits)
qed

lemma permutation_facts:
  assumes "mset xs = mset [0 ..< 10]"
  shows "length xs = 10 \<and> distinct xs \<and> set xs = {0 ..< 10}"
proof -
  from assms have "length xs = length [0 ..< 10]" by (rule mset_eq_length)
  moreover from assms have "distinct xs = distinct [0 ..< 10]" by (rule mset_eq_imp_distinct_iff)
  moreover from assms have "set xs = set [0 ..< 10]" by (rule mset_eq_setD)
  ultimately show ?thesis by simp
qed

lemma filter_shorter: "(length (filter P a) < length a) = (\<exists>x \<in> set a. \<not> P x)"
proof -
  have "length (filter P a) + length (filter (\<lambda>x. \<not> P x) a) = length a"
    by (rule sum_length_filter_compl)
  then have "(length (filter P a) < length a) = (0 < length (filter (\<lambda>x. \<not> P x) a))"
    by linarith
  also have "\<dots> = (\<exists>x \<in> set a. \<not> P x)"
    by (simp only: length_greater_0_conv filter_empty_conv not_all not_imp bex_simps) blast
  finally show ?thesis .
qed

lemma all_claimed:
  assumes "length a = 100"
  shows "(length (filter (\<lambda>s. s \<noteq> None) a) < 100) = (None \<in> set a)"
  using filter_shorter [of "\<lambda>s. s \<noteq> None" a] assms by auto

text \<open>
  C2. On a board of 100 squares the assign-numbers action succeeds if and only if no
  square is empty. On success \<open>rowNumbers\<close> and \<open>colNumbers\<close> are each a permutation of
  0 to 9 (the same multiset, length 10, no repeats) and \<open>numbersAssigned\<close> is true; on
  failure the response is a validation error and nothing is written. The draws of
  \<^verbatim>\<open>Math.random\<close> are taken to be in its range, from 0 up to but not including 1.
\<close>

theorem assign_numbers_permutation:
  assumes "length (squares st) = 100" and "\<forall>k. 0 \<le> rnd k \<and> rnd k < 1"
  shows
    "if None \<in> set (squares st)
     then \<exists>msg. handler rt rnd (st # store) (post (b\<lparr>action := Str ''assign-numbers''\<rparr>))
                 = ((400, Error msg), st # store)
     else \<exists>st'. handler rt rnd (st # store) (post (b\<lparr>action := Str ''assign-numbers''\<rparr>))
                 = ((200, Document st'), st' # st # store)
            \<and> mset (rowNumbers st') = mset [0 ..< 10]
            \<and> length (rowNumbers st') = 10 \<and> distinct (rowNumbers st')
            \<and> set (rowNumbers st') = {0 ..< 10}
            \<and> mset (colNumbers st') = mset [0 ..< 10]
            \<and> length (colNumbers st') = 10 \<and> distinct (colNumbers st')
            \<and> set (colNumbers st') = {0 ..< 10}
            \<and> numbersAssigned st'"
proof (cases "None \<in> set (squares st)")
  case True
  with all_claimed [OF assms(1)] have "length (filter (\<lambda>s. s \<noteq> None) (squares st)) < 100"
    by blast
  then have "handler rt rnd (st # store) (post (b\<lparr>action := Str ''assign-numbers''\<rparr>))
             = ((400, Error ''All squares must be claimed first''), st # store)"
    by (simp add: handler_post dispatch_def assign_numbers_def client_error_def)
  then have "\<exists>msg. handler rt rnd (st # store) (post (b\<lparr>action := Str ''assign-numbers''\<rparr>))
                 = ((400, Error msg), st # store)"
    by blast
  with True show ?thesis by (simp only: if_True)
next
  case False
  with all_claimed [OF assms(1)]
  have full: "\<not> length (filter (\<lambda>s. s \<noteq> None) (squares st)) < 100"
    by blast
  let ?s3 = "st\<lparr>rowNumbers := shuffle rnd 0 [0, 1, 2, 3, 4, 5, 6, 7, 8, 9],
                 colNumbers := shuffle rnd 9 [0, 1, 2, 3, 4, 5, 6, 7, 8, 9],
                 numbersAssigned := True\<rparr>"
  let ?s4 = "if rnd 18 < 1 / 2
             then ?s3\<lparr>team1Name := team2Name ?s3, team2Name := team1Name ?s3\<rparr> else ?s3"
  have run: "handler rt rnd (st # store) (post (b\<lparr>action := Str ''assign-numbers''\<rparr>))
             = ((200, Document ?s4), ?s4 # st # store)"
    using full by (simp add: handler_post dispatch_def assign_numbers_def saved Let_def)
  have rows: "rowNumbers ?s4 = shuffle rnd 0 [0, 1, 2, 3, 4, 5, 6, 7, 8, 9]" by simp
  have cols: "colNumbers ?s4 = shuffle rnd 9 [0, 1, 2, 3, 4, 5, 6, 7, 8, 9]" by simp
  have flag: "numbersAssigned ?s4" by simp
  have r: "mset (rowNumbers ?s4) = mset [0 ..< 10]"
    unfolding rows using assms(2) by (rule shuffle_digits)
  have c: "mset (colNumbers ?s4) = mset [0 ..< 10]"
    unfolding cols using assms(2) by (rule shuffle_digits)
  from run r c flag permutation_facts [OF r] permutation_facts [OF c]
  have "\<exists>st'. handler rt rnd (st # store) (post (b\<lparr>action := Str ''assign-numbers''\<rparr>))
                 = ((200, Document st'), st' # st # store)
            \<and> mset (rowNumbers st') = mset [0 ..< 10]
            \<and> length (rowNumbers st') = 10 \<and> distinct (rowNumbers st')
            \<and> set (rowNumbers st') = {0 ..< 10}
            \<and> mset (colNumbers st') = mset [0 ..< 10]
            \<and> length (colNumbers st') = 10 \<and> distinct (colNumbers st')
            \<and> set (colNumbers st') = {0 ..< 10}
            \<and> numbersAssigned st'"
    by blast
  with False show ?thesis by (simp only: if_False)
qed

theorem assign_numbers_permutation_witness:
  "(\<exists>st'. handler example_runtime (\<lambda>k. 1 / 2) [full_board]
             (post (empty_body\<lparr>action := Str ''assign-numbers''\<rparr>))
           = ((200, Document st'), [st', full_board])
      \<and> mset (rowNumbers st') = mset [0 ..< 10]
      \<and> length (rowNumbers st') = 10 \<and> distinct (rowNumbers st')
      \<and> set (rowNumbers st') = {0 ..< 10}
      \<and> mset (colNumbers st') = mset [0 ..< 10]
      \<and> length (colNumbers st') = 10 \<and> distinct (colNumbers st')
      \<and> set (colNumbers st') = {0 ..< 10}
      \<and> numbersAssigned st')
   \<and> (\<exists>msg. handler example_runtime (\<lambda>k. 1 / 2) [defaultState]
               (post (empty_body\<lparr>action := Str ''assign-numbers''\<rparr>))
             = ((400, Error msg), [defaultState]))"
proof -
  have draws: "\<forall>k::nat. (0::rat) \<le> 1 / 2 \<and> (1::rat) / 2 < 1" by simp
  have full: "length (squares full_board) = 100" "None \<notin> set (squares full_board)"
    by (simp_all add: full_board_def)
  have empty: "length (squares defaultState) = 100" "None \<in> set (squares defaultState)"
    by (simp_all add: defaultState_def)
  from assign_numbers_permutation [OF full(1) draws, of example_runtime "[]" empty_body] full(2)
  have "\<exists>st'. handler example_runtime (\<lambda>k. 1 / 2) [full_board]
             (post (empty_body\<lparr>action := Str ''assign-numbers''\<rparr>))
           = ((200, Document st'), [st', full_board])
      \<and> mset (rowNumbers st') = mset [0 ..< 10]
      \<and> length (rowNumbers st') = 10 \<and> distinct (rowNumbers st')
      \<and> set (rowNumbers st') = {0 ..< 10}
      \<and> mset (colNumbers st') = mset [0 ..< 10]
      \<and> length (colNumbers st') = 10 \<and> distinct (colNumbers st')
      \<and> set (colNumbers st') = {0 ..< 10}
      \<and> numbersAssigned st'"
    by (simp only: if_False)
  moreover
  from assign_numbers_permutation [OF empty(1) draws, of example_runtime "[]" empty_body] empty(2)
  have "\<exists>msg. handler example_runtime (\<lambda>k. 1 / 2) [defaultState]
               (post (empty_body\<lparr>action := Str ''assign-numbers''\<rparr>))
             = ((400, Error msg), [defaultState])"
    by (simp only: if_True)
  ultimately show ?thesis by blast
qed

subsection \<open>C3: update-price with an invalid price\<close>

text \<open>
  C3 as stated, that update-price with an undefined or negative price answers with a
  client error and does not write the document, fails: with no price in the body the
  handler answers 200 with the document and writes it again.
\<close>

theorem update_price_invalid_counterexample:
  "handler example_runtime (\<lambda>k. 0) [defaultState]
     (post (empty_body\<lparr>action := Str ''update-price''\<rparr>))
   = ((200, Document defaultState), [defaultState, defaultState])"
  by (simp add: handler_post dispatch_def update_price_def saved empty_body_def)

text \<open>
  C3, amended. For the update-price action, a price that is undefined or below 0 is
  ignored: no field of the document changes, the handler answers 200 with the
  unchanged document and writes that document to the store.
\<close>

theorem update_price_invalid_ignored:
  "price b = Undefined \<or> js_lt rt (price b) 0 \<Longrightarrow>
   handler rt rnd (st # store) (post (b\<lparr>action := Str ''update-price''\<rparr>))
   = ((200, Document st), st # st # store)"
  by (auto simp add: handler_post dispatch_def update_price_def saved lt_not_ge)

theorem update_price_invalid_ignored_witness:
  "handler example_runtime (\<lambda>k. 0) [full_board]
     (post (empty_body\<lparr>action := Str ''update-price'', price := Num (- 1)\<rparr>))
   = ((200, Document full_board), [full_board, full_board])"
proof -
  let ?b = "empty_body\<lparr>price := Num (- 1)\<rparr>"
  have "price ?b = Undefined \<or> js_lt example_runtime (price ?b) 0"
    by (simp add: lt_Num)
  from update_price_invalid_ignored [OF this, of "\<lambda>k. 0" full_board "[]"]
  show ?thesis by (simp add: empty_body_def)
qed

subsection \<open>C4: reset\<close>

text \<open>
  C4 as stated, that the price after reset equals the price before, fails for a
  price of 0: update-price accepts 0, and the reset that follows stores 2.
\<close>

theorem reset_price_counterexample:
  "pricePerSquare (hd (run example_runtime [defaultState]
      [(\<lambda>k. 0, post (empty_body\<lparr>action := Str ''update-price'', price := Num 0\<rparr>))])) = Num 0
   \<and> pricePerSquare (hd (run example_runtime [defaultState]
      [(\<lambda>k. 0, post (empty_body\<lparr>action := Str ''update-price'', price := Num 0\<rparr>)),
       (\<lambda>k. 0, post (empty_body\<lparr>action := Str ''reset''\<rparr>))])) = Num 2"
  by (simp add: handler_post dispatch_def update_price_def reset_def saved empty_body_def ge_Num Let_def)

text \<open>
  C4, amended. For every game state, the reset action replaces the document with a
  fresh default (all squares empty, numbersAssigned false, rowNumbers and colNumbers
  empty, quarterScores all empty strings) in which team1Name and team2Name equal
  their values before the reset, and pricePerSquare equals its value before the reset
  when that value is truthy and is 2 otherwise.
\<close>

theorem reset_fresh:
  "\<exists>st'. handler rt rnd (st # store) (post (b\<lparr>action := Str ''reset''\<rparr>))
            = ((200, Document st'), st' # st # store)
     \<and> squares st' = replicate 100 None
     \<and> numbersAssigned st' = False
     \<and> rowNumbers st' = [] \<and> colNumbers st' = []
     \<and> quarterScores st' = replicate 4 (Some \<lparr>team1 = Str '''', team2 = Str ''''\<rparr>)
     \<and> team1Name st' = team1Name st \<and> team2Name st' = team2Name st
     \<and> pricePerSquare st' = (if truthy (pricePerSquare st) then pricePerSquare st else Num 2)"
  by (simp add: handler_post dispatch_def reset_def saved Let_def)

theorem reset_fresh_witness:
  "\<exists>st'. handler example_runtime (\<lambda>k. 0) [full_board\<lparr>pricePerSquare := Num 5\<rparr>]
              (post (empty_body\<lparr>action := Str ''reset''\<rparr>))
            = ((200, Document st'), [st', full_board\<lparr>pricePerSquare := Num 5\<rparr>])
     \<and> squares st' = replicate 100 None
     \<and> numbersAssigned st' = False
     \<and> rowNumbers st' = [] \<and> colNumbers st' = []
     \<and> quarterScores st' = replicate 4 (Some \<lparr>team1 = Str '''', team2 = Str ''''\<rparr>)
     \<and> team1Name st' = Str ''Patriots'' \<and> team2Name st' = Str ''Seahawks''
     \<and> pricePerSquare st' = Num 5"
  using reset_fresh [of example_runtime "\<lambda>k. 0" "full_board\<lparr>pricePerSquare := Num 5\<rparr>" "[]" empty_body]
  by (simp add: full_board_def defaultState_def)

subsection \<open>C5: set-score\<close>

text \<open>
  What does hold. A quarter that is an integer from 0 to 3 has exactly its entry of
  \<open>quarterScores\<close> replaced and the rest of the document kept. A quarter that the guard
  \<^verbatim>\<open>quarter < 0 || quarter > 3\<close> catches is answered with \<^verbatim>\<open>Invalid quarter\<close> and nothing
  is written: every number below 0 or above 3, and every string whose number is, such
  as \<^verbatim>\<open>"7"\<close>.
\<close>

lemma quarter_checks: "q \<le> 3 \<Longrightarrow> \<not> (js_lt rt (Num (of_nat q)) 0 \<or> js_gt rt (Num (of_nat q)) 3)"
proof -
  assume "q \<le> 3"
  then have "\<not> (3 :: rat) < of_nat q"
    by (metis of_nat_less_iff of_nat_numeral not_less)
  then show ?thesis by (simp add: lt_Num gt_Num)
qed

lemma set_score_in_range:
  assumes q: "q \<le> 3"
  shows
    "\<exists>st'. handler rt rnd (st # store)
              (post (b\<lparr>action := Str ''set-score'', quarter := Num (of_nat q)\<rparr>))
            = ((200, Document st'), st' # st # store)
       \<and> element (quarterScores st') q = Some \<lparr>team1 = team1Score b, team2 = team2Score b\<rparr>
       \<and> (\<forall>j. j \<noteq> q \<longrightarrow> element (quarterScores st') j = element (quarterScores st) j)
       \<and> squares st' = squares st
       \<and> rowNumbers st' = rowNumbers st \<and> colNumbers st' = colNumbers st
       \<and> numbersAssigned st' = numbersAssigned st
       \<and> team1Name st' = team1Name st \<and> team2Name st' = team2Name st
       \<and> pricePerSquare st' = pricePerSquare st"
proof -
  from q have "q \<le> 99" by simp
  then have key: "property_of rt (Num (of_nat q)) = Element q" by (rule property_of_nat)
  let ?v = "Some \<lparr>team1 = team1Score b, team2 = team2Score b\<rparr>"
  let ?st = "st\<lparr>quarterScores := store_element (quarterScores st) q ?v\<rparr>"
  have "handler rt rnd (st # store)
          (post (b\<lparr>action := Str ''set-score'', quarter := Num (of_nat q)\<rparr>))
        = ((200, Document ?st), ?st # st # store)"
    using quarter_checks [OF q, of rt] key
    by (simp add: handler_post dispatch_def set_score_def assign_at_def saved del: property_of.simps)
  then show ?thesis
    by (simp add: element_store_same element_store_other)
qed

lemma set_score_rejected:
  "js_lt rt (quarter b) 0 \<or> js_gt rt (quarter b) 3 \<Longrightarrow>
   handler rt rnd (st # store) (post (b\<lparr>action := Str ''set-score''\<rparr>))
   = ((400, Error ''Invalid quarter''), st # store)"
  by (simp add: handler_post dispatch_def set_score_def client_error_def)

lemma set_score_rejected_examples:
  "handler example_runtime (\<lambda>k. 0) [defaultState]
     (post (empty_body\<lparr>action := Str ''set-score'', quarter := Num 4\<rparr>))
   = ((400, Error ''Invalid quarter''), [defaultState])"
  "handler example_runtime (\<lambda>k. 0) [defaultState]
     (post (empty_body\<lparr>action := Str ''set-score'', quarter := Str ''7''\<rparr>))
   = ((400, Error ''Invalid quarter''), [defaultState])"
  by (simp_all add: handler_post dispatch_def set_score_def client_error_def empty_body_def
      js_lt_def js_gt_def array_index_def digit_def)

text \<open>
  C5, that set-score answers every quarter value outside 0 to 3 with a validation
  error and changes nothing, does not hold of the code for a request without a
  quarter: \<^verbatim>\<open>undefined < 0\<close> and \<^verbatim>\<open>undefined > 3\<close> are both false, so the guard that
  answers \<^verbatim>\<open>Invalid quarter\<close> is passed, \<^verbatim>\<open>quarterScores[quarter] = ...\<close> sets a property
  named \<^verbatim>\<open>undefined\<close>, which is not an entry, and the handler answers 200 and writes
  the document as it was: the scores 7 and 3 of the request are lost without an error.
\<close>

theorem set_score_missing_quarter_accepted:
  "handler example_runtime (\<lambda>k. 0) [defaultState]
     (post (empty_body\<lparr>action := Str ''set-score'', team1Score := Num 7, team2Score := Num 3\<rparr>))
   = ((200, Document defaultState), [defaultState, defaultState])"
  by (simp add: handler_post dispatch_def set_score_def saved empty_body_def assign_at_def
      undefined_in_range)

subsection \<open>C6: clear-board\<close>

text \<open>
  C6. For every game state, the clear-board action sets all 100 squares to empty and
  leaves rowNumbers, colNumbers, numbersAssigned, team1Name, team2Name, pricePerSquare
  and quarterScores unchanged.
\<close>

theorem clear_board_frame:
  "\<exists>st'. handler rt rnd (st # store) (post (b\<lparr>action := Str ''clear-board''\<rparr>))
            = ((200, Document st'), st' # st # store)
     \<and> squares st' = replicate 100 None
     \<and> rowNumbers st' = rowNumbers st \<and> colNumbers st' = colNumbers st
     \<and> numbersAssigned st' = numbersAssigned st
     \<and> team1Name st' = team1Name st \<and> team2Name st' = team2Name st
     \<and> pricePerSquare st' = pricePerSquare st
     \<and> quarterScores st' = quarterScores st"
  by (simp add: handler_post dispatch_def clear_board_def saved)

theorem clear_board_frame_witness:
  "\<exists>st'. handler example_runtime (\<lambda>k. 0) [full_board]
              (post (empty_body\<lparr>action := Str ''clear-board''\<rparr>))
            = ((200, Document st'), [st', full_board])
     \<and> squares st' = replicate 100 None
     \<and> rowNumbers st' = rowNumbers full_board \<and> colNumbers st' = colNumbers full_board
     \<and> numbersAssigned st' = numbersAssigned full_board
     \<and> team1Name st' = team1Name full_board \<and> team2Name st' = team2Name full_board
     \<and> pricePerSquare st' = pricePerSquare full_board
     \<and> quarterScores st' = quarterScores full_board"
  using clear_board_frame [of example_runtime "\<lambda>k. 0" full_board "[]" empty_body] by simp

subsection \<open>C7: the number of squares\<close>

text \<open>
  What does hold: an index that passes the range check and names an element names one
  of the first hundred, so on a board of 100 squares every POST request whose index
  does not name the property \<^verbatim>\<open>length\<close> leaves a board of 100 squares in the store.
\<close>

lemma element_in_range:
  assumes "property_of rt v = Element n" and "\<not> js_gt rt v c"
  shows "of_nat n \<le> c"
proof (cases v)
  case (Num q)
  with assms(1) have q: "0 \<le> q" "of_int \<lfloor>q\<rfloor> = q" and n: "n = nat \<lfloor>q\<rfloor>"
    by (simp_all split: if_splits)
  from q have "0 \<le> \<lfloor>q\<rfloor>" by simp
  with n q(2) have "(of_nat n :: rat) = q"
    by (metis of_int_of_nat_eq int_nat_eq)
  with assms(2) Num show ?thesis by (simp add: gt_Num)
next
  case (Str s)
  with assms(1) have "array_index s = Some n"
    by (simp add: property_of_name_def split: option.splits if_splits)
  with assms(2) Str show ?thesis by (simp add: js_gt_def)
qed (use assms(1) in simp_all)

lemma length_store_element: "n < length a \<Longrightarrow> length (store_element a n v) = length a"
  by (simp add: store_element_def)

lemma assign_at_length:
  assumes "length a = 100" and "property_of rt k \<noteq> LengthProp" and "\<not> js_gt rt k 99"
    and "assign_at rt a k v x = Some a'"
  shows "length a' = 100"
proof (cases "property_of rt k")
  case (Element n)
  from Element assms(3) have "(of_nat n :: rat) \<le> 99" by (rule element_in_range)
  then have "(of_nat n :: rat) \<le> of_nat 99" by simp
  then have "n \<le> 99" by (simp only: of_nat_le_iff)
  with assms(1) have "n < length a" by simp
  with assms(1,4) Element show ?thesis
    by (auto simp add: assign_at_def length_store_element)
qed (use assms in \<open>auto simp add: assign_at_def\<close>)

lemma squares_kept_unless_length:
  assumes "length (squares st) = 100" and "property_of rt (index b) \<noteq> LengthProp"
  shows "length (squares (hd (snd (handler rt rnd (st # store) (post b))))) = 100"
proof -
  have claimed: "length (squares (hd (snd (claim rt st (st # store) b)))) = 100"
    using assms assign_at_length [OF assms, of _ _ _]
    by (auto simp add: claim_def client_error_def server_error_def saved
        split: jsval.splits option.splits)
  have erased: "length (squares (hd (snd (erase rt st (st # store) b)))) = 100"
    using assms assign_at_length [OF assms, of None "Fin 0"]
    by (auto simp add: erase_def client_error_def server_error_def saved split: option.splits)
  have others:
    "length (squares (hd (snd (assign_numbers rnd st (st # store))))) = 100"
    "length (squares (hd (snd (update_teams st (st # store) b)))) = 100"
    "length (squares (hd (snd (update_price rt st (st # store) b)))) = 100"
    "length (squares (hd (snd (set_score rt st (st # store) b)))) = 100"
    "length (squares (hd (snd (clear_board st (st # store))))) = 100"
    "length (squares (hd (snd (reset st (st # store))))) = 100"
    using assms(1)
    by (simp_all add: assign_numbers_def update_teams_def update_price_def set_score_def
        clear_board_def reset_def client_error_def server_error_def saved Let_def
        split: option.splits)
  from claimed erased others assms(1) show ?thesis
    by (simp add: handler_post dispatch_def client_error_def)
qed

text \<open>
  C7, that every action keeps \<open>squares\<close> at 100 slots, does not hold of the erase
  action: the string \<^verbatim>\<open>length\<close> is neither below 0 nor above 99, so
  \<^verbatim>\<open>squares[index] = null\<close> assigns \<open>null\<close> to the array's length, which empties the
  array. On the default document the erase request with index \<^verbatim>\<open>"length"\<close> answers 200
  and stores a document without squares.
\<close>

theorem erase_length_empties_board:
  "length (squares defaultState) = 100
   \<and> handler example_runtime (\<lambda>k. 0) [defaultState]
       (post (empty_body\<lparr>action := Str ''erase'', index := Str ''length''\<rparr>))
     = ((200, Document (defaultState\<lparr>squares := []\<rparr>)),
        [defaultState\<lparr>squares := []\<rparr>, defaultState])"
  by (simp add: handler_post dispatch_def erase_def saved empty_body_def assign_at_def
      js_lt_def js_gt_def array_index_def digit_def example_runtime_def property_of_name_def
      set_length_def defaultState_def)

subsection \<open>C8: numbersAssigned\<close>

lemma assigned_Cons: "assigned (d # store) = numbersAssigned d"
  by (simp add: assigned_def redis_get_def)

lemma claim_flag:
  "assigned (snd (claim rt st (st # store) b)) = numbersAssigned st"
  by (simp add: claim_def client_error_def server_error_def saved assigned_Cons
      split: jsval.splits option.splits)

lemma update_teams_flag:
  "assigned (snd (update_teams st (st # store) b)) = numbersAssigned st"
  by (simp add: update_teams_def saved assigned_Cons Let_def)

lemma update_price_flag:
  "assigned (snd (update_price rt st (st # store) b)) = numbersAssigned st"
  by (simp add: update_price_def saved assigned_Cons Let_def)

lemma set_score_flag:
  "assigned (snd (set_score rt st (st # store) b)) = numbersAssigned st"
  by (simp add: set_score_def client_error_def server_error_def saved assigned_Cons
      split: option.splits)

lemma erase_flag:
  "assigned (snd (erase rt st (st # store) b)) = numbersAssigned st"
  by (simp add: erase_def client_error_def server_error_def saved assigned_Cons
      split: option.splits)

lemma clear_board_flag:
  "assigned (snd (clear_board st (st # store))) = numbersAssigned st"
  by (simp add: clear_board_def saved assigned_Cons)

lemma assign_numbers_flag:
  "numbersAssigned st \<Longrightarrow> assigned (snd (assign_numbers rnd st (st # store)))"
  by (simp add: assign_numbers_def client_error_def saved assigned_Cons Let_def)

lemma reset_flag:
  "\<not> assigned (snd (reset st (st # store)))"
  by (simp add: reset_def saved assigned_Cons Let_def)

lemmas flags = claim_flag update_teams_flag update_price_flag set_score_flag erase_flag
  clear_board_flag

lemma dispatch_keeps_true:
  "action b \<noteq> Str ''reset'' \<Longrightarrow> numbersAssigned st \<Longrightarrow>
   assigned (snd (dispatch rt rnd st (st # store) b))"
  by (simp add: dispatch_def flags assign_numbers_flag client_error_def assigned_Cons)

lemma dispatch_keeps_false:
  "action b \<noteq> Str ''assign-numbers'' \<Longrightarrow> \<not> numbersAssigned st \<Longrightarrow>
   \<not> assigned (snd (dispatch rt rnd st (st # store) b))"
  by (simp add: dispatch_def flags reset_flag client_error_def assigned_Cons)

lemma handler_keeps_true:
  assumes "\<not> posts ''reset'' req" and "assigned store"
  shows "assigned (snd (handler rt rnd store req))"
proof -
  from assms(2) obtain st rest where store: "store = st # rest" and flag: "numbersAssigned st"
    by (cases store) (simp_all add: assigned_def redis_get_def)
  show ?thesis
  proof (cases "req_method req = ''POST''")
    case False
    with assms(2) show ?thesis
      by (simp add: handler_def store getGameState_def redis_get_def)
  next
    case True
    show ?thesis
    proof (cases "body req")
      case None
      with True flag show ?thesis
        by (simp add: handler_def store getGameState_def redis_get_def server_error_def
            assigned_Cons)
    next
      case (Some b)
      with True assms(1) have "action b \<noteq> Str ''reset''" by (simp add: posts_def)
      from dispatch_keeps_true [OF this flag] True Some show ?thesis
        by (simp add: handler_def store getGameState_def redis_get_def)
    qed
  qed
qed

lemma handler_keeps_false:
  assumes "\<not> posts ''assign-numbers'' req" and "\<not> assigned store"
  shows "\<not> assigned (snd (handler rt rnd store req))"
proof -
  obtain st store1 where got: "getGameState store = (st, st # store1)"
    and flag: "\<not> numbersAssigned st"
    using assms(2)
    by (cases store)
      (simp_all add: getGameState_def redis_get_def redis_set_def assigned_def defaultState_def)
  have same: "req_method req = ''OPTIONS'' \<or> (req_method req \<noteq> ''GET'' \<and> req_method req \<noteq> ''POST'')
    \<Longrightarrow> snd (handler rt rnd store req) = store"
    by (auto simp add: handler_def)
  show ?thesis
  proof (cases "req_method req = ''POST''")
    case False
    show ?thesis
    proof (cases "req_method req = ''GET''")
      case True
      with got flag show ?thesis by (simp add: handler_def assigned_Cons)
    next
      case False
      with \<open>req_method req \<noteq> ''POST''\<close> same assms(2) show ?thesis by simp
    qed
  next
    case True
    show ?thesis
    proof (cases "body req")
      case None
      with True got flag show ?thesis
        by (simp add: handler_def server_error_def assigned_Cons)
    next
      case (Some b)
      with True assms(1) have "action b \<noteq> Str ''assign-numbers''" by (simp add: posts_def)
      from dispatch_keeps_false [OF this flag] True Some got show ?thesis
        by (simp add: handler_def)
    qed
  qed
qed

lemma run_keeps_true:
  "\<forall>r \<in> set reqs. \<not> posts ''reset'' (snd r) \<Longrightarrow> assigned store \<Longrightarrow> assigned (run rt store reqs)"
proof (induction reqs arbitrary: store)
  case Nil
  then show ?case by simp
next
  case (Cons r reqs)
  obtain rnd req where r: "r = (rnd, req)" by (cases r)
  with Cons.prems have "\<not> posts ''reset'' req" by simp
  then have "assigned (snd (handler rt rnd store req))"
    using Cons.prems(2) by (rule handler_keeps_true)
  moreover from Cons.prems have "\<forall>r \<in> set reqs. \<not> posts ''reset'' (snd r)" by simp
  ultimately show ?case using Cons.IH r by simp
qed

text \<open>
  C8. \<open>numbersAssigned\<close> is false in the default document; a request that is not an
  assign-numbers request never turns it from false to true; and once it is true, no
  sequence of requests without a reset request (so no sequence of claim, update-teams,
  update-price, set-score, erase and clear-board actions) turns it back to false.
\<close>

theorem numbersAssigned_only_reset_clears:
  "\<not> numbersAssigned defaultState
   \<and> (\<not> posts ''assign-numbers'' req \<and> \<not> assigned store
        \<longrightarrow> \<not> assigned (snd (handler rt rnd store req)))
   \<and> ((\<forall>r \<in> set reqs. \<not> posts ''reset'' (snd r)) \<and> assigned store
        \<longrightarrow> assigned (run rt store reqs))"
  using handler_keeps_false run_keeps_true by (simp add: defaultState_def)



theorem numbersAssigned_only_reset_clears_witness:
  "\<not> numbersAssigned defaultState
   \<and> \<not> assigned (snd (handler example_runtime (\<lambda>k. 0) [defaultState]
                        (post (empty_body\<lparr>action := Str ''clear-board''\<rparr>))))
   \<and> assigned (run example_runtime [full_board\<lparr>numbersAssigned := True\<rparr>]
        [(\<lambda>k. 0, post (empty_body\<lparr>action := Str ''claim'', index := Num 5, initials := Str ''ab''\<rparr>)),
         (\<lambda>k. 0, post (empty_body\<lparr>action := Str ''update-teams'', req_team1Name := Str ''Eagles''\<rparr>)),
         (\<lambda>k. 0, post (empty_body\<lparr>action := Str ''update-price'', price := Num 3\<rparr>)),
         (\<lambda>k. 0, post (empty_body\<lparr>action := Str ''set-score'', quarter := Num 2\<rparr>)),
         (\<lambda>k. 0, post (empty_body\<lparr>action := Str ''erase'', index := Num 5\<rparr>)),
         (\<lambda>k. 0, post (empty_body\<lparr>action := Str ''clear-board''\<rparr>))])"
proof -
  let ?req = "post (empty_body\<lparr>action := Str ''clear-board''\<rparr>)"
  let ?reqs =
    "[(\<lambda>k. 0, post (empty_body\<lparr>action := Str ''claim'', index := Num 5, initials := Str ''ab''\<rparr>)),
      (\<lambda>k. 0, post (empty_body\<lparr>action := Str ''update-teams'', req_team1Name := Str ''Eagles''\<rparr>)),
      (\<lambda>k. 0, post (empty_body\<lparr>action := Str ''update-price'', price := Num 3\<rparr>)),
      (\<lambda>k. 0, post (empty_body\<lparr>action := Str ''set-score'', quarter := Num 2\<rparr>)),
      (\<lambda>k. 0, post (empty_body\<lparr>action := Str ''erase'', index := Num 5\<rparr>)),
      (\<lambda>k. 0, ?req)] :: ((nat \<Rightarrow> rat) \<times> request) list"
  have one: "\<not> posts ''assign-numbers'' ?req \<and> \<not> assigned [defaultState]"
    by (simp add: posts_def post_def assigned_Cons defaultState_def)
  have many: "(\<forall>r \<in> set ?reqs. \<not> posts ''reset'' (snd r))
              \<and> assigned [full_board\<lparr>numbersAssigned := True\<rparr>]"
    by (simp add: posts_def post_def assigned_Cons)
  from numbersAssigned_only_reset_clears [of ?req "[defaultState]" example_runtime "\<lambda>k. 0" "[]"] one
  have "\<not> numbersAssigned defaultState
        \<and> \<not> assigned (snd (handler example_runtime (\<lambda>k. 0) [defaultState] ?req))"
    by blast
  moreover
  from numbersAssigned_only_reset_clears
         [of ?req "[full_board\<lparr>numbersAssigned := True\<rparr>]" example_runtime "\<lambda>k. 0" ?reqs] many
  have "assigned (run example_runtime [full_board\<lparr>numbersAssigned := True\<rparr>] ?reqs)"
    by blast
  ultimately show ?thesis by blast
qed

subsection \<open>C9: update-price twice\<close>

text \<open>
  C9. The update-price action is idempotent: with a valid price (defined and at least
  0) the first request answers 200 with a document whose \<open>pricePerSquare\<close> is that price,
  and a second request with the same price answers 200 with the same document and
  stores it again. The example has the price 3.
\<close>

theorem update_price_idempotent:
  assumes "price b \<noteq> Undefined" and "js_ge rt (price b) 0"
  shows
    "\<exists>st'. handler rt rnd (st # store) (post (b\<lparr>action := Str ''update-price''\<rparr>))
              = ((200, Document st'), st' # st # store)
       \<and> pricePerSquare st' = price b
       \<and> handler rt rnd' (st' # st # store) (post (b\<lparr>action := Str ''update-price''\<rparr>))
              = ((200, Document st'), st' # st' # st # store)"
  using assms by (simp add: handler_post dispatch_def update_price_def saved Let_def)

theorem update_price_idempotent_witness:
  "\<exists>st'. handler example_runtime (\<lambda>k. 0) [defaultState]
              (post (empty_body\<lparr>action := Str ''update-price'', price := Num 3\<rparr>))
            = ((200, Document st'), [st', defaultState])
     \<and> pricePerSquare st' = Num 3
     \<and> handler example_runtime (\<lambda>k. 0) [st', defaultState]
              (post (empty_body\<lparr>action := Str ''update-price'', price := Num 3\<rparr>))
            = ((200, Document st'), [st', st', defaultState])"
proof -
  let ?b = "empty_body\<lparr>price := Num 3\<rparr>"
  have "price ?b \<noteq> Undefined" and "js_ge example_runtime (price ?b) 0"
    by (simp_all add: ge_Num)
  from update_price_idempotent [OF this, of "\<lambda>k. 0" defaultState "[]" "\<lambda>k. 0"]
  show ?thesis by (simp add: empty_body_def)
qed

subsection \<open>C10: a request without an index\<close>

text \<open>
  C10. For the claim and erase actions a request without an index passes the range
  validation, since \<^verbatim>\<open>undefined < 0\<close> and \<^verbatim>\<open>undefined > 99\<close> are both false: the claim
  action never answers \<^verbatim>\<open>Invalid square index\<close> to it, and with initials of 2 to 4
  characters it answers 200; the erase action answers 200, writes the document and
  leaves it, and so all squares, unchanged.
\<close>

theorem undefined_index_passes:
  "\<not> (js_lt rt Undefined 0 \<or> js_gt rt Undefined 99)
   \<and> fst (handler rt rnd (st # store) (post (b\<lparr>action := Str ''claim'', index := Undefined\<rparr>)))
       \<noteq> (400, Error ''Invalid square index'')
   \<and> (2 \<le> length s \<and> length s \<le> 4 \<longrightarrow>
        handler rt rnd (st # store)
          (post (b\<lparr>action := Str ''claim'', index := Undefined, initials := Str s\<rparr>))
        = ((200, Document st), st # st # store))
   \<and> handler rt rnd (st # store) (post (b\<lparr>action := Str ''erase'', index := Undefined\<rparr>))
       = ((200, Document st), st # st # store)"
proof -
  have range: "\<not> (js_lt rt Undefined 0 \<or> js_gt rt Undefined 99)"
    by (simp add: undefined_in_range)
  have not_rejected:
    "fst (handler rt rnd (st # store) (post (b\<lparr>action := Str ''claim'', index := Undefined\<rparr>)))
       \<noteq> (400, Error ''Invalid square index'')"
    by (simp add: handler_post dispatch_def claim_def saved assign_at_def truthy_at_def
        undefined_in_range client_error_def server_error_def split: jsval.splits option.splits)
  have claimed: "handler rt rnd (st # store)
          (post (b\<lparr>action := Str ''claim'', index := Undefined, initials := Str s\<rparr>))
        = ((200, Document st), st # st # store)"
    if "2 \<le> length s \<and> length s \<le> 4"
  proof -
    from that have "\<not> (\<not> truthy (Str s) \<or> js_lt rt (length_of (Str s)) 2
                       \<or> js_gt rt (length_of (Str s)) 4)"
      using claim_checks by blast
    then show ?thesis
      by (simp add: handler_post dispatch_def claim_def saved assign_at_def truthy_at_def
          undefined_in_range del: truthy.simps length_of.simps)
  qed
  have erased: "handler rt rnd (st # store) (post (b\<lparr>action := Str ''erase'', index := Undefined\<rparr>))
       = ((200, Document st), st # st # store)"
    by (simp add: handler_post dispatch_def erase_def saved assign_at_def undefined_in_range)
  from range not_rejected claimed erased show ?thesis by blast
qed

theorem undefined_index_passes_witness:
  "\<not> (js_lt example_runtime Undefined 0 \<or> js_gt example_runtime Undefined 99)
   \<and> fst (handler example_runtime (\<lambda>k. 0) [full_board]
            (post (empty_body\<lparr>action := Str ''claim'', index := Undefined\<rparr>)))
       \<noteq> (400, Error ''Invalid square index'')
   \<and> handler example_runtime (\<lambda>k. 0) [full_board]
        (post (empty_body\<lparr>action := Str ''claim'', index := Undefined, initials := Str ''ab''\<rparr>))
       = ((200, Document full_board), [full_board, full_board])
   \<and> handler example_runtime (\<lambda>k. 0) [full_board]
        (post (empty_body\<lparr>action := Str ''erase'', index := Undefined\<rparr>))
       = ((200, Document full_board), [full_board, full_board])"
  using undefined_index_passes [of example_runtime "\<lambda>k. 0" full_board "[]" empty_body "''ab''"]
  by simp

end
